theory Spec2Isabelle
  imports Main "HOL-Library.Word"
begin

unbundle bit_operations_syntax

section \<open>Python values\<close>

text \<open>
  A Python \<open>str\<close> is a sequence of Unicode code points and \<open>len\<close> counts code points,
  so a string is a list of code points. \<open>py\<close> turns a literal of the source into
  such a list.
\<close>

type_synonym pystr = "nat list"

definition py :: "string \<Rightarrow> pystr" where
  "py s = map of_char s"

text \<open>A Python \<open>float\<close> is only stored and passed on: it is kept as its IEEE-754 binary64 bit pattern.\<close>

type_synonym float64 = "64 word"

text \<open>The exceptions that the modelled code lets escape to its caller.\<close>

datatype error =
    KeyError
  | IndexError
  | TypeError
  | ValidationError
  | RequestError
  | JSONDecodeError
  | DoesNotExist
  | ValueError

definition ebind :: "error + 'a \<Rightarrow> ('a \<Rightarrow> error + 'b) \<Rightarrow> error + 'b" where
  "ebind m f = (case m of Inl e \<Rightarrow> Inl e | Inr x \<Rightarrow> f x)"

section \<open>JSON bodies (the value of \<open>response.json()\<close>)\<close>

datatype json =
    JNull
  | JBool bool
  | JInt int
  | JFloat float64
  | JStr pystr
  | JList "json list"
  | JObj "(pystr \<times> json) list"

text \<open>Python truthiness, as \<open>if result\<close> tests it. A float is false when it is \<open>0.0\<close> or \<open>-0.0\<close>.\<close>

fun truthy :: "json \<Rightarrow> bool" where
  "truthy JNull = False"
| "truthy (JBool b) = b"
| "truthy (JInt n) = (n \<noteq> 0)"
| "truthy (JFloat x) = (x AND 0x7FFFFFFFFFFFFFFF \<noteq> 0)"
| "truthy (JStr s) = (s \<noteq> [])"
| "truthy (JList xs) = (xs \<noteq> [])"
| "truthy (JObj kvs) = (kvs \<noteq> [])"

text \<open>
  \<open>v[k]\<close> for a string key \<open>k\<close>: a dict looks the key up and raises \<open>KeyError\<close> when it is
  missing; every other JSON value raises \<open>TypeError\<close>.
\<close>

fun getitem :: "json \<Rightarrow> pystr \<Rightarrow> error + json" where
  "getitem (JObj kvs) k = (case map_of kvs k of None \<Rightarrow> Inl KeyError | Some v \<Rightarrow> Inr v)"
| "getitem v k = Inl TypeError"

text \<open>
  \<open>v[0]\<close>: a list gives its first element, a string its first character, both raise
  \<open>IndexError\<close> when empty; a dict decoded from JSON has string keys only, so the key \<open>0\<close>
  is missing; every other value raises \<open>TypeError\<close>.
\<close>

fun getitem0 :: "json \<Rightarrow> error + json" where
  "getitem0 (JList []) = Inl IndexError"
| "getitem0 (JList (x # xs)) = Inr x"
| "getitem0 (JStr []) = Inl IndexError"
| "getitem0 (JStr (c # cs)) = Inr (JStr [c])"
| "getitem0 (JObj kvs) = Inl KeyError"
| "getitem0 v = Inl TypeError"

section \<open>DTO schemas (\<open>geo/clients/shemas.py\<close>)\<close>

record LocationDTO =
  city :: pystr
  alpha2code :: pystr

text \<open>\<open>alpha2code: str = Field(min_length=2, max_length=2)\<close>; \<open>city: str\<close> is unconstrained.\<close>

definition mk_LocationDTO :: "pystr \<Rightarrow> pystr \<Rightarrow> error + LocationDTO" where
  "mk_LocationDTO c a =
     (if length a < 2 then Inl ValidationError
      else if 2 < length a then Inl ValidationError
      else Inr \<lparr>city = c, alpha2code = a\<rparr>)"

record CurrencyInfoDTO =
  code :: pystr

record LanguagesInfoDTO =
  name :: pystr
  native_name :: pystr

record CountryShortDTO =
  country_name :: pystr
  country_alpha2code :: pystr

text \<open>\<open>name: str\<close> and \<open>alpha2code: str\<close>: neither field carries a constraint.\<close>

definition mk_CountryShortDTO :: "pystr \<Rightarrow> pystr \<Rightarrow> error + CountryShortDTO" where
  "mk_CountryShortDTO n a = Inr \<lparr>country_name = n, country_alpha2code = a\<rparr>"

record CountryDTO = CountryShortDTO +
  alpha3code :: pystr
  capital :: pystr
  region :: pystr
  subregion :: pystr
  population :: int
  latitude :: float64
  longitude :: float64
  demonym :: pystr
  area :: float64
  numeric_code :: pystr
  flag :: pystr
  currencies :: "CurrencyInfoDTO set"
  languages :: "LanguagesInfoDTO set"

definition mk_CountryDTO ::
  "pystr \<Rightarrow> pystr \<Rightarrow> pystr \<Rightarrow> pystr \<Rightarrow> pystr \<Rightarrow> pystr \<Rightarrow> int \<Rightarrow> float64 \<Rightarrow> float64 \<Rightarrow> pystr \<Rightarrow>
   float64 \<Rightarrow> pystr \<Rightarrow> pystr \<Rightarrow> CurrencyInfoDTO set \<Rightarrow> LanguagesInfoDTO set \<Rightarrow> error + CountryDTO" where
  "mk_CountryDTO n a a3 cap reg sub pop lat lon dem ar num fl cur lang =
     Inr \<lparr>country_name = n, country_alpha2code = a, alpha3code = a3, capital = cap, region = reg,
          subregion = sub, population = pop, latitude = lat, longitude = lon, demonym = dem,
          area = ar, numeric_code = num, flag = fl, currencies = cur, languages = lang\<rparr>"

record 'd WeatherInfoDTO =
  temp :: float64
  pressure :: int
  humidity :: int
  wind_speed :: float64
  description :: pystr
  visibility :: int
  dt :: 'd
  timezone :: int

text \<open>
  The field validators of the schema library, one per declared field type. They are
  library code, so they are parameters: \<open>None\<close> is a rejected value. \<open>'d\<close> is the
  library's date-time value.
\<close>

record 'd validators =
  v_float :: "json \<Rightarrow> float64 option"
  v_int :: "json \<Rightarrow> int option"
  v_str :: "json \<Rightarrow> pystr option"
  v_datetime :: "json \<Rightarrow> 'd option"

text \<open>
  Constructing a \<open>WeatherInfoDTO\<close> from the eight raw values: every field is validated
  against its declared type and one \<open>ValidationError\<close> is raised when any is rejected.
\<close>

definition mk_WeatherInfoDTO ::
  "'d validators \<Rightarrow> json \<Rightarrow> json \<Rightarrow> json \<Rightarrow> json \<Rightarrow> json \<Rightarrow> json \<Rightarrow> json \<Rightarrow> json
     \<Rightarrow> error + 'd WeatherInfoDTO" where
  "mk_WeatherInfoDTO V t p h w d vis ts tz =
     (case (v_float V t, v_int V p, v_int V h, v_float V w, v_str V d, v_int V vis,
            v_datetime V ts, v_int V tz) of
        (Some t', Some p', Some h', Some w', Some d', Some vis', Some ts', Some tz') \<Rightarrow>
          Inr \<lparr>temp = t', pressure = p', humidity = h', wind_speed = w', description = d',
               visibility = vis', dt = ts', timezone = tz'\<rparr>
      | _ \<Rightarrow> Inl ValidationError)"

section \<open>Weather client (\<open>geo/clients/weather.py\<close>)\<close>

text \<open>
  What \<open>client.get(endpoint)\<close> does: it raises (a request-level failure: timeout, no
  connection) or it returns a response with a status code and a body; \<open>response.json()\<close>
  raises when the body does not decode (\<open>content = None\<close>).
\<close>

record response =
  status_code :: int
  content :: "json option"

type_synonym transport = "pystr \<Rightarrow> error + response"

definition get_base_url :: pystr where
  "get_base_url = py ''https://api.openweathermap.org/data/2.5/weather''"

definition request :: "transport \<Rightarrow> pystr \<Rightarrow> error + json option" where
  "request net endpoint =
     ebind (net endpoint) (\<lambda>response.
       if status_code response = 200
       then (case content response of None \<Rightarrow> Inl JSONDecodeError | Some j \<Rightarrow> Inr (Some j))
       else Inr None)"

definition weather_endpoint :: "pystr \<Rightarrow> pystr \<Rightarrow> pystr" where
  "weather_endpoint api_key location =
     get_base_url @ py ''?units=metric&q='' @ location @ py ''&appid='' @ api_key"

text \<open>
  The keyword arguments are evaluated left to right, so the first subscript that fails
  decides the exception; the schema is validated last.
\<close>

definition project_weather :: "'d validators \<Rightarrow> json \<Rightarrow> error + 'd WeatherInfoDTO" where
  "project_weather V result =
     ebind (ebind (getitem result (py ''main'')) (\<lambda>m. getitem m (py ''temp''))) (\<lambda>t.
     ebind (ebind (getitem result (py ''main'')) (\<lambda>m. getitem m (py ''pressure''))) (\<lambda>p.
     ebind (ebind (getitem result (py ''main'')) (\<lambda>m. getitem m (py ''humidity''))) (\<lambda>h.
     ebind (ebind (getitem result (py ''wind'')) (\<lambda>w. getitem w (py ''speed''))) (\<lambda>ws.
     ebind (ebind (ebind (getitem result (py ''weather'')) getitem0)
              (\<lambda>w0. getitem w0 (py ''description''))) (\<lambda>d.
     ebind (getitem result (py ''visibility'')) (\<lambda>vis.
     ebind (getitem result (py ''dt'')) (\<lambda>ts.
     ebind (getitem result (py ''timezone'')) (\<lambda>tz.
       mk_WeatherInfoDTO V t p h ws d vis ts tz))))))))"

definition get_weather ::
  "'d validators \<Rightarrow> transport \<Rightarrow> pystr \<Rightarrow> pystr \<Rightarrow> error + 'd WeatherInfoDTO option" where
  "get_weather V net api_key location =
     ebind (request net (weather_endpoint api_key location)) (\<lambda>result.
       case result of
         None \<Rightarrow> Inr None
       | Some j \<Rightarrow> if truthy j then ebind (project_weather V j) (\<lambda>w. Inr (Some w)) else Inr None)"

section \<open>News service (\<open>news/services/news.py\<close>)\<close>

subsection \<open>Persisted entities and collaborators\<close>

text \<open>
  Modelled from the spec: the persisted \<open>Country\<close> entity (\<open>geo/models.py\<close> is not among
  the sources). The service reads its primary key and its alpha-2 code only.
\<close>

record Country =
  pk :: int
  iso_name :: pystr
  iso_alpha2code :: pystr

text \<open>
  A raw news item as the news client hands it over (\<open>NewsItemDTO\<close>): \<open>author\<close>,
  \<open>description\<close> and \<open>url\<close> may be \<open>None\<close>. \<open>'d\<close> is the date-time value.
\<close>

record 'd NewsItemDTO =
  item_source :: pystr
  item_author :: "pystr option"
  item_title :: pystr
  item_description :: "pystr option"
  item_url :: "pystr option"
  item_published_at :: 'd

text \<open>
  Modelled from the spec: the \<open>News\<close> entity (\<open>news/models.py\<close> is not among the
  sources): a foreign key to a persisted country and six columns. The query of
  \<open>get_news\<close> follows the key under the name \<open>country\<close>, so \<open>country_id\<close> is the attribute
  holding the key's value. \<open>'fk\<close> is what that attribute holds: the integer key in a
  persisted row, and whatever was assigned in an object that is not saved yet.
\<close>

record ('fk, 'd) News =
  country_id :: 'fk
  source :: pystr
  author :: pystr
  title :: pystr
  news_description :: pystr
  url :: pystr
  published_at :: 'd

text \<open>What an unsaved \<open>News\<close> object holds in \<open>country_id\<close>: a number, or a \<open>Country\<close> instance.\<close>

datatype fk_value = Pk int | Instance Country

text \<open>
  The state the service works on: the two tables, the \<open>INSERT\<close> statements issued on
  the news table (one list of rows per statement), the largest number of rows the
  database backend takes in one statement (\<open>ops.bulk_batch_size\<close>, given the number of
  objects), and the requests sent so far to the remote news provider.
\<close>

record 'd world =
  countries :: "Country list"
  news_table :: "(int, 'd) News list"
  inserts :: "(int, 'd) News list list"
  bulk_batch_size :: "nat \<Rightarrow> nat"
  provider_log :: "pystr list"

text \<open>
  The remote news provider behind \<open>NewsClient().get_news\<close>: its answer to the \<open>n\<close>-th
  request (counted from 0) for a country code; \<open>None\<close> is no data. Each call is logged.
\<close>

type_synonym 'd provider = "nat \<Rightarrow> pystr \<Rightarrow> 'd NewsItemDTO list option"

definition NewsClient_get_news ::
  "'d provider \<Rightarrow> pystr \<Rightarrow> 'd world \<Rightarrow> 'd NewsItemDTO list option \<times> 'd world" where
  "NewsClient_get_news P country_code w =
     (P (length (provider_log w)) country_code,
      w\<lparr>provider_log := provider_log w @ [country_code]\<rparr>)"

text \<open>
  Modelled from the spec: \<open>CountryService\<close> (\<open>geo/services/country.py\<close> is not among the
  sources). \<open>get_countries_codes\<close> gives the mapping from alpha-2 code to internal id
  (a dict, or \<open>None\<close>); \<open>get_countries\<close> fetches and persists country metadata, so it
  changes the country table only.
\<close>

record CountryService =
  get_countries_codes :: "Country list \<Rightarrow> (pystr \<times> int option) list option"
  get_countries :: "pystr \<Rightarrow> Country list \<Rightarrow> Country list"

subsection \<open>The local query\<close>

fun starts_with :: "'a list \<Rightarrow> 'a list \<Rightarrow> bool" where
  "starts_with s [] = True"
| "starts_with [] (c # cs) = False"
| "starts_with (x # xs) (c # cs) = (x = c \<and> starts_with xs cs)"

fun contains :: "'a list \<Rightarrow> 'a list \<Rightarrow> bool" where
  "contains [] sub = (sub = [])"
| "contains (x # xs) sub = (starts_with (x # xs) sub \<or> contains xs sub)"

definition Country_get :: "Country list \<Rightarrow> int \<Rightarrow> error + Country" where
  "Country_get tbl k = (case find (\<lambda>c. pk c = k) tbl of None \<Rightarrow> Inl DoesNotExist | Some c \<Rightarrow> Inr c)"

text \<open>\<open>News.objects.filter(Q(country__alpha2code__contains=country_code))\<close>: the join over the foreign key.\<close>

definition News_filter :: "'d world \<Rightarrow> pystr \<Rightarrow> (int, 'd) News list" where
  "News_filter w country_code =
     filter (\<lambda>n. case Country_get (countries w) (country_id n) of
                    Inl e \<Rightarrow> False
                  | Inr c \<Rightarrow> contains (iso_alpha2code c) country_code)
            (news_table w)"

subsection \<open>\<open>get_news\<close>\<close>

text \<open>
  The statements after \<open>return NewsClient().get_news(country_code)\<close> (the
  \<open>bulk_create\<close> and \<open>return news\<close>) are never executed and have no counterpart here.
\<close>

text \<open>\<open>codes is None or country_code not in codes\<close>\<close>

definition not_in_codes :: "(pystr \<times> int option) list option \<Rightarrow> pystr \<Rightarrow> bool" where
  "not_in_codes codes country_code =
     (case codes of None \<Rightarrow> True | Some d \<Rightarrow> map_of d country_code = None)"

text \<open>\<open>codes is None or codes.get(country_code, None) is None\<close>\<close>

definition get_is_None :: "(pystr \<times> int option) list option \<Rightarrow> pystr \<Rightarrow> bool" where
  "get_is_None codes country_code =
     (case codes of
        None \<Rightarrow> True
      | Some d \<Rightarrow> (case map_of d country_code of
                     None \<Rightarrow> True
                   | Some None \<Rightarrow> True
                   | Some (Some i) \<Rightarrow> False))"

definition get_news ::
  "'d provider \<Rightarrow> CountryService \<Rightarrow> pystr \<Rightarrow> 'd world \<Rightarrow> 'd NewsItemDTO list option \<times> 'd world" where
  "get_news P CS country_code w =
     (let news = News_filter w country_code in
      if news = [] then
        (case NewsClient_get_news P country_code w of (news_data, w1) \<Rightarrow>
           if news_data \<noteq> None \<and> news_data \<noteq> Some [] then
             (let codes = get_countries_codes CS (countries w1) in
              if not_in_codes codes country_code then
                (let w2 = w1\<lparr>countries := get_countries CS country_code (countries w1)\<rparr>;
                     codes = get_countries_codes CS (countries w2) in
                 if get_is_None codes country_code
                 then (None, w2)
                 else NewsClient_get_news P country_code w2)
              else NewsClient_get_news P country_code w1)
           else NewsClient_get_news P country_code w1)
      else NewsClient_get_news P country_code w)"

subsection \<open>\<open>build_model\<close> and \<open>save_news\<close>\<close>

text \<open>
  \<open>country_id=Country.objects.get(pk=country_id)\<close>: the keyword \<open>country_id\<close> receives the
  \<open>Country\<close> instance itself.
\<close>

definition build_model :: "'d world \<Rightarrow> 'd NewsItemDTO \<Rightarrow> int \<Rightarrow> error + (fk_value, 'd) News" where
  "build_model w news_item k =
     ebind (Country_get (countries w) k) (\<lambda>c.
       Inr \<lparr>country_id = Instance c,
            source = item_source news_item,
            author = (case item_author news_item of
                        None \<Rightarrow> [] | Some a \<Rightarrow> if a \<noteq> [] then a else []),
            title = item_title news_item,
            news_description = (case item_description news_item of
                        None \<Rightarrow> [] | Some d \<Rightarrow> if d \<noteq> [] then d else []),
            url = (case item_url news_item of
                        None \<Rightarrow> [] | Some u \<Rightarrow> if u \<noteq> [] then u else []),
            published_at = item_published_at news_item\<rparr>)"

text \<open>The list comprehension: the first item whose model cannot be built raises.\<close>

fun build_models ::
  "'d world \<Rightarrow> 'd NewsItemDTO list \<Rightarrow> int \<Rightarrow> error + (fk_value, 'd) News list" where
  "build_models w [] k = Inr []"
| "build_models w (news_item # rest) k =
     ebind (build_model w news_item k) (\<lambda>obj.
     ebind (build_models w rest k) (\<lambda>objs. Inr (obj # objs)))"

text \<open>
  \<open>News.objects.bulk_create(objs, batch_size)\<close> is the object mapper's, library code;
  this is what it does to the state. The objects are cut into consecutive groups of \<open>batch_size\<close> rows, or of the
  backend's limit when that is smaller, and each group is one \<open>INSERT\<close>. To write a
  group, every object's \<open>country_id\<close> is converted to the integer column: a number is
  taken as it is, anything else raises \<open>TypeError\<close>. The whole call is one transaction,
  so an error leaves the table as it was. A \<open>batch_size\<close> of 0 is refused. Whether an
  integer key refers to a persisted country is the database's own check and is not part
  of this model.
\<close>

fun batches :: "nat \<Rightarrow> 'a list \<Rightarrow> 'a list list" where
  "batches n xs = (if n = 0 \<or> xs = [] then [] else take n xs # batches n (drop n xs))"

definition get_prep_value :: "fk_value \<Rightarrow> error + int" where
  "get_prep_value v = (case v of Pk k \<Rightarrow> Inr k | Instance c \<Rightarrow> Inl TypeError)"

definition prepare_row :: "(fk_value, 'd) News \<Rightarrow> error + (int, 'd) News" where
  "prepare_row obj =
     ebind (get_prep_value (country_id obj)) (\<lambda>k.
       Inr \<lparr>country_id = k, source = source obj, author = author obj, title = title obj,
            news_description = news_description obj, url = url obj,
            published_at = published_at obj\<rparr>)"

fun prepare_rows :: "(fk_value, 'd) News list \<Rightarrow> error + (int, 'd) News list" where
  "prepare_rows [] = Inr []"
| "prepare_rows (obj # objs) =
     ebind (prepare_row obj) (\<lambda>row.
     ebind (prepare_rows objs) (\<lambda>rows. Inr (row # rows)))"

fun insert_batches :: "(fk_value, 'd) News list list \<Rightarrow> 'd world \<Rightarrow> error + 'd world" where
  "insert_batches [] w = Inr w"
| "insert_batches (b # bs) w =
     ebind (prepare_rows b) (\<lambda>rows.
       insert_batches bs (w\<lparr>news_table := news_table w @ rows, inserts := inserts w @ [rows]\<rparr>))"

definition bulk_create :: "(fk_value, 'd) News list \<Rightarrow> nat \<Rightarrow> 'd world \<Rightarrow> error + 'd world" where
  "bulk_create objs batch_size w =
     (if batch_size = 0 then Inl ValueError
      else insert_batches
             (batches (min batch_size (max (bulk_batch_size w (length objs)) 1)) objs) w)"

definition save_news :: "int \<Rightarrow> 'd NewsItemDTO list \<Rightarrow> 'd world \<Rightarrow> error + 'd world" where
  "save_news country_pk news w =
     (if news \<noteq> [] then
        ebind (build_models w news country_pk) (\<lambda>objs. bulk_create objs 1000 w)
      else Inr w)"

section \<open>Sample data\<close>

text \<open>A schema library that accepts exactly the declared JSON types, with a date-time kept as its timestamp.\<close>

definition declared_types :: "int validators" where
  "declared_types =
     \<lparr>v_float = (\<lambda>j. case j of JFloat x \<Rightarrow> Some x | _ \<Rightarrow> None),
      v_int = (\<lambda>j. case j of JInt n \<Rightarrow> Some n | _ \<Rightarrow> None),
      v_str = (\<lambda>j. case j of JStr s \<Rightarrow> Some s | _ \<Rightarrow> None),
      v_datetime = (\<lambda>j. case j of JInt n \<Rightarrow> Some n | _ \<Rightarrow> None)\<rparr>"

text \<open>The body of the provider's documentation: temperature 13.92 and wind speed 4.63 as binary64.\<close>

definition sample_body :: json where
  "sample_body = JObj
     [(py ''main'', JObj [(py ''temp'', JFloat 0x402BD70A3D70A3D7), (py ''pressure'', JInt 1023),
                          (py ''humidity'', JInt 54)]),
      (py ''wind'', JObj [(py ''speed'', JFloat 0x4012851EB851EB85)]),
      (py ''weather'', JList [JObj [(py ''description'', JStr (py ''scattered clouds''))]]),
      (py ''visibility'', JInt 10000),
      (py ''dt'', JInt 1661870592),
      (py ''timezone'', JInt 7200)]"

definition estonia :: Country where
  "estonia = \<lparr>pk = 1, iso_name = py ''Estonia'', iso_alpha2code = py ''EE''\<rparr>"

definition item_a :: "int NewsItemDTO" where
  "item_a = \<lparr>item_source = py ''ERR'', item_author = None, item_title = py ''A'',
             item_description = Some [], item_url = Some (py ''http://a''),
             item_published_at = 1661870592\<rparr>"

definition item_b :: "int NewsItemDTO" where
  "item_b = \<lparr>item_source = py ''Postimees'', item_author = Some (py ''B. B.''), item_title = py ''B'',
             item_description = Some (py ''text''), item_url = None,
             item_published_at = 1661870600\<rparr>"

definition row_a :: "(int, int) News" where
  "row_a = \<lparr>country_id = 1, source = py ''ERR'', author = [], title = py ''A'',
            news_description = [], url = py ''http://a'', published_at = 1661870592\<rparr>"

definition populated :: "int world" where
  "populated = \<lparr>countries = [estonia], news_table = [row_a], inserts = [],
                 bulk_batch_size = (\<lambda>n. n), provider_log = []\<rparr>"

definition fresh :: "int world" where
  "fresh = \<lparr>countries = [], news_table = [], inserts = [],
             bulk_batch_size = (\<lambda>n. n), provider_log = []\<rparr>"

definition changing :: "int provider" where
  "changing n country_code = (if n = 0 then Some [item_a] else Some [item_b])"

definition CS_static :: CountryService where
  "CS_static = \<lparr>get_countries_codes = (\<lambda>tbl. Some (map (\<lambda>c. (iso_alpha2code c, Some (pk c))) tbl)),
                get_countries = (\<lambda>country_code tbl. tbl)\<rparr>"

definition CS_fetching :: CountryService where
  "CS_fetching = \<lparr>get_countries_codes = (\<lambda>tbl. Some (map (\<lambda>c. (iso_alpha2code c, Some (pk c))) tbl)),
                get_countries = (\<lambda>country_code tbl.
                   tbl @ [\<lparr>pk = 1 + int (length tbl), iso_name = [], iso_alpha2code = country_code\<rparr>])\<rparr>"

text \<open>The object \<open>build_model\<close> makes of \<open>item_a\<close> for Estonia.\<close>

definition model_a :: "(fk_value, int) News" where
  "model_a = \<lparr>country_id = Instance estonia, source = py ''ERR'', author = [], title = py ''A'',
              news_description = [], url = py ''http://a'', published_at = 1661870592\<rparr>"

section \<open>Basic facts\<close>

lemma py_eq_iff [simp]: "py a = py b \<longleftrightarrow> a = b"
  by (simp add: py_def inj_map_eq_map [OF inj_of_char])

lemma ebind_Inl [simp]: "ebind (Inl e) f = Inl e"
  by (simp add: ebind_def)

lemma ebind_Inr [simp]: "ebind (Inr x) f = f x"
  by (simp add: ebind_def)

lemma ebind_eq_Inl: "ebind m f = Inl e \<longleftrightarrow> m = Inl e \<or> (\<exists>x. m = Inr x \<and> f x = Inl e)"
  by (cases m) auto

lemma ebind_eq_Inr: "ebind m f = Inr y \<longleftrightarrow> (\<exists>x. m = Inr x \<and> f x = Inr y)"
  by (cases m) auto

section \<open>The weather client\<close>

lemma getitem_errors: "getitem j k = Inl e \<Longrightarrow> e = KeyError \<or> e = TypeError"
  by (cases j) (auto split: option.splits)

lemma getitem0_errors: "getitem0 j = Inl e \<Longrightarrow> e = KeyError \<or> e = TypeError \<or> e = IndexError"
  by (cases j rule: getitem0.cases) auto

lemma mk_WeatherInfoDTO_errors:
  "mk_WeatherInfoDTO V t p h w d vis ts tz = Inl e \<Longrightarrow> e = ValidationError"
  by (auto simp: mk_WeatherInfoDTO_def split: option.splits)

text \<open>The schema is only validated once all six top-level keys have been read.\<close>

lemma project_weather_reaches:
  assumes "project_weather V j = Inr w \<or> project_weather V j = Inl ValidationError"
  shows "\<exists>a b c d e f. getitem j (py ''main'') = Inr a \<and> getitem j (py ''wind'') = Inr b
          \<and> getitem j (py ''weather'') = Inr c \<and> getitem j (py ''visibility'') = Inr d
          \<and> getitem j (py ''dt'') = Inr e \<and> getitem j (py ''timezone'') = Inr f"
  using assms unfolding project_weather_def
  by (auto simp: ebind_eq_Inl ebind_eq_Inr dest: getitem_errors getitem0_errors)

lemma project_weather_errors:
  assumes "project_weather V j = Inl e"
  shows "e = KeyError \<or> e = TypeError \<or> e = IndexError \<or> e = ValidationError"
  using assms unfolding project_weather_def
  by (auto simp: ebind_eq_Inl dest: getitem_errors getitem0_errors mk_WeatherInfoDTO_errors)

text \<open>
  C4. When the provider answers 200 with a body of the nested shape (\<open>main\<close> with \<open>temp\<close>,
  \<open>pressure\<close>, \<open>humidity\<close>; \<open>wind\<close> with \<open>speed\<close>; a non-empty \<open>weather\<close> list whose first
  entry has \<open>description\<close>; \<open>visibility\<close>, \<open>dt\<close>, \<open>timezone\<close> at the top level) whose
  values the schema accepts, \<open>get_weather\<close> returns a populated \<open>WeatherInfoDTO\<close>:
  \<open>temp = main.temp\<close>, \<open>pressure = main.pressure\<close>, \<open>humidity = main.humidity\<close>,
  \<open>wind_speed = wind.speed\<close>, \<open>description = weather[0].description\<close>, and \<open>visibility\<close>,
  \<open>dt\<close>, \<open>timezone\<close> from the top level.
\<close>

theorem get_weather_ok:
  assumes "net (weather_endpoint api_key location) = Inr \<lparr>status_code = 200, content = Some (JObj kvs)\<rparr>"
    and "map_of kvs (py ''main'') = Some (JObj mainkv)"
    and "map_of mainkv (py ''temp'') = Some tj"
    and "map_of mainkv (py ''pressure'') = Some pj"
    and "map_of mainkv (py ''humidity'') = Some hj"
    and "map_of kvs (py ''wind'') = Some (JObj windkv)"
    and "map_of windkv (py ''speed'') = Some wsj"
    and "map_of kvs (py ''weather'') = Some (JList (JObj w0kv # others))"
    and "map_of w0kv (py ''description'') = Some dj"
    and "map_of kvs (py ''visibility'') = Some visj"
    and "map_of kvs (py ''dt'') = Some tsj"
    and "map_of kvs (py ''timezone'') = Some tzj"
    and "v_float V tj = Some t" and "v_int V pj = Some p" and "v_int V hj = Some h"
    and "v_float V wsj = Some ws" and "v_str V dj = Some d" and "v_int V visj = Some vis"
    and "v_datetime V tsj = Some when" and "v_int V tzj = Some tz"
  shows "get_weather V net api_key location =
           Inr (Some \<lparr>temp = t, pressure = p, humidity = h, wind_speed = ws, description = d,
                      visibility = vis, dt = when, timezone = tz\<rparr>)"
proof -
  have "kvs \<noteq> []"
    using assms(2) by auto
  moreover have "project_weather V (JObj kvs) =
      Inr \<lparr>temp = t, pressure = p, humidity = h, wind_speed = ws, description = d,
           visibility = vis, dt = when, timezone = tz\<rparr>"
    using assms(2-) by (simp add: project_weather_def mk_WeatherInfoDTO_def)
  ultimately show ?thesis
    using assms(1) by (simp add: get_weather_def request_def)
qed

theorem get_weather_ok_witness:
  "get_weather declared_types
     (\<lambda>endpoint. Inr \<lparr>status_code = 200, content = Some sample_body\<rparr>)
     (py ''k'') (py ''Tallinn,EE'') =
   Inr (Some \<lparr>temp = 0x402BD70A3D70A3D7, pressure = 1023, humidity = 54,
              wind_speed = 0x4012851EB851EB85, description = py ''scattered clouds'',
              visibility = 10000, dt = 1661870592, timezone = 7200\<rparr>)"
  by (rule get_weather_ok [where
        kvs = "case sample_body of JObj kvs \<Rightarrow> kvs"
        and mainkv = "[(py ''temp'', JFloat 0x402BD70A3D70A3D7), (py ''pressure'', JInt 1023),
                       (py ''humidity'', JInt 54)]"
        and tj = "JFloat 0x402BD70A3D70A3D7" and pj = "JInt 1023" and hj = "JInt 54"
        and windkv = "[(py ''speed'', JFloat 0x4012851EB851EB85)]"
        and wsj = "JFloat 0x4012851EB851EB85"
        and ?w0kv = "[(py ''description'', JStr (py ''scattered clouds''))]"
        and others = "[]" and dj = "JStr (py ''scattered clouds'')"
        and visj = "JInt 10000" and tsj = "JInt 1661870592" and tzj = "JInt 7200"])
     (simp_all add: sample_body_def declared_types_def)

text \<open>
  C5, as amended. For every provider response with a status other than 200,
  \<open>get_weather\<close> returns absent and raises nothing; a request-level failure, which the
  HTTP client raises, is not caught and reaches the caller as that error.
\<close>

theorem get_weather_failure:
  "(net (weather_endpoint api_key location) = Inr r \<and> status_code r \<noteq> 200
      \<longrightarrow> get_weather V net api_key location = Inr None)
   \<and> (net (weather_endpoint api_key location) = Inl e
      \<longrightarrow> get_weather V net api_key location = Inl e)"
  by (simp add: get_weather_def request_def)

theorem get_weather_failure_witness:
  "get_weather declared_types (\<lambda>endpoint. Inr \<lparr>status_code = 404, content = Some sample_body\<rparr>)
      (py ''k'') (py ''Tallinn,EE'') = Inr None
   \<and> get_weather declared_types (\<lambda>endpoint. Inl RequestError) (py ''k'') (py ''Tallinn,EE'')
      = Inl RequestError"
  using get_weather_failure [of "\<lambda>endpoint. Inr \<lparr>status_code = 404, content = Some sample_body\<rparr>"
      "py ''k''" "py ''Tallinn,EE''" "\<lparr>status_code = 404, content = Some sample_body\<rparr>" declared_types]
    get_weather_failure [of "\<lambda>endpoint. Inl RequestError" "py ''k''" "py ''Tallinn,EE''" _ declared_types RequestError]
  by simp

text \<open>The claim as stated fails: a request-level failure is raised to the caller.\<close>

theorem get_weather_request_failure_counterexample:
  "get_weather declared_types (\<lambda>endpoint. Inl RequestError) (py ''k'') (py ''Tallinn,EE'')
     = Inl RequestError"
  by (simp add: get_weather_def request_def)

text \<open>
  C6, as amended. With an HTTP 200 response, \<open>get_weather\<close> returns absent when the body
  is falsy (for instance \<open>{}\<close>); errors of reading the body are not swallowed: a non-empty
  JSON object without \<open>main\<close> raises \<open>KeyError\<close>, and a non-empty JSON object without any
  one of \<open>main\<close>, \<open>wind\<close>, \<open>weather\<close>, \<open>visibility\<close>, \<open>dt\<close>, \<open>timezone\<close> raises
  \<open>KeyError\<close>, \<open>TypeError\<close> or \<open>IndexError\<close>.
\<close>

theorem get_weather_missing_key:
  assumes "net (weather_endpoint api_key location) = Inr \<lparr>status_code = 200, content = Some body\<rparr>"
  shows "(\<not> truthy body \<longrightarrow> get_weather V net api_key location = Inr None)
       \<and> (body = JObj kvs \<and> kvs \<noteq> [] \<and> map_of kvs (py ''main'') = None
            \<longrightarrow> get_weather V net api_key location = Inl KeyError)
       \<and> (body = JObj kvs \<and> kvs \<noteq> []
            \<and> (map_of kvs (py ''main'') = None \<or> map_of kvs (py ''wind'') = None
               \<or> map_of kvs (py ''weather'') = None \<or> map_of kvs (py ''visibility'') = None
               \<or> map_of kvs (py ''dt'') = None \<or> map_of kvs (py ''timezone'') = None)
            \<longrightarrow> get_weather V net api_key location = Inl KeyError
              \<or> get_weather V net api_key location = Inl TypeError
              \<or> get_weather V net api_key location = Inl IndexError)"
proof (intro conjI impI)
  assume "\<not> truthy body"
  then show "get_weather V net api_key location = Inr None"
    using assms by (simp add: get_weather_def request_def)
next
  assume "body = JObj kvs \<and> kvs \<noteq> [] \<and> map_of kvs (py ''main'') = None"
  then show "get_weather V net api_key location = Inl KeyError"
    using assms by (simp add: get_weather_def request_def project_weather_def)
next
  assume a: "body = JObj kvs \<and> kvs \<noteq> []
            \<and> (map_of kvs (py ''main'') = None \<or> map_of kvs (py ''wind'') = None
               \<or> map_of kvs (py ''weather'') = None \<or> map_of kvs (py ''visibility'') = None
               \<or> map_of kvs (py ''dt'') = None \<or> map_of kvs (py ''timezone'') = None)"
  then have miss: "getitem body (py ''main'') = Inl KeyError \<or> getitem body (py ''wind'') = Inl KeyError
      \<or> getitem body (py ''weather'') = Inl KeyError \<or> getitem body (py ''visibility'') = Inl KeyError
      \<or> getitem body (py ''dt'') = Inl KeyError \<or> getitem body (py ''timezone'') = Inl KeyError"
    by auto
  have gw: "get_weather V net api_key location = ebind (project_weather V body) (\<lambda>w. Inr (Some w))"
    using assms a by (simp add: get_weather_def request_def)
  obtain e where e: "project_weather V body = Inl e" and "e \<noteq> ValidationError"
  proof (cases "project_weather V body")
    case (Inl e)
    with miss project_weather_reaches [of V body] that show ?thesis by fastforce
  next
    case (Inr w)
    with miss project_weather_reaches [of V body w] show ?thesis by fastforce
  qed
  with project_weather_errors [OF e] gw
  show "get_weather V net api_key location = Inl KeyError
              \<or> get_weather V net api_key location = Inl TypeError
              \<or> get_weather V net api_key location = Inl IndexError"
    by auto
qed

theorem get_weather_missing_key_witness:
  "get_weather declared_types
     (\<lambda>endpoint. Inr \<lparr>status_code = 200, content = Some (JObj [])\<rparr>)
     (py ''k'') (py ''Tallinn,EE'') = Inr None
   \<and> get_weather declared_types
     (\<lambda>endpoint. Inr \<lparr>status_code = 200, content = Some (JObj [(py ''main'', JObj [(py ''temp'', JInt 1)])])\<rparr>)
     (py ''k'') (py ''Tallinn,EE'') \<noteq> Inr None"
  using get_weather_missing_key [of "\<lambda>endpoint. Inr \<lparr>status_code = 200, content = Some (JObj [])\<rparr>"
         "py ''k''" "py ''Tallinn,EE''" "JObj []" declared_types "[]"]
    get_weather_missing_key [of "\<lambda>endpoint. Inr \<lparr>status_code = 200, content = Some (JObj [(py ''main'', JObj [(py ''temp'', JInt 1)])])\<rparr>"
         "py ''k''" "py ''Tallinn,EE''" "JObj [(py ''main'', JObj [(py ''temp'', JInt 1)])]" declared_types
         "[(py ''main'', JObj [(py ''temp'', JInt 1)])]"]
  by auto

text \<open>The claim as stated fails: a 200 response whose body lacks \<open>main\<close> raises \<open>KeyError\<close>.\<close>

theorem get_weather_missing_key_counterexample:
  "get_weather declared_types
     (\<lambda>endpoint. Inr \<lparr>status_code = 200, content = Some (JObj [(py ''cod'', JInt 200)])\<rparr>)
     (py ''k'') (py ''Tallinn,EE'') = Inl KeyError"
  by (simp add: get_weather_def request_def project_weather_def)

section \<open>The DTO schemas\<close>

text \<open>
  C7, as amended. Constructing a \<open>LocationDTO\<close> succeeds for every \<open>alpha2code\<close> of length
  2 and fails with \<open>ValidationError\<close> for every other length; constructing a
  \<open>CountryShortDTO\<close> or a \<open>CountryDTO\<close> succeeds for every \<open>alpha2code\<close>, whatever its
  length, since that field carries no constraint.
\<close>

theorem alpha2code_length:
  "(length a = 2 \<longrightarrow> mk_LocationDTO c a = Inr \<lparr>city = c, alpha2code = a\<rparr>)
   \<and> (length a \<noteq> 2 \<longrightarrow> mk_LocationDTO c a = Inl ValidationError)
   \<and> mk_CountryShortDTO n a = Inr \<lparr>country_name = n, country_alpha2code = a\<rparr>
   \<and> (\<exists>country. mk_CountryDTO n a a3 cap reg sub pop lat lon dem ar num fl cur lang = Inr country
         \<and> country_alpha2code country = a)"
  by (auto simp add: mk_LocationDTO_def mk_CountryShortDTO_def mk_CountryDTO_def)

theorem alpha2code_length_witness:
  "mk_LocationDTO (py ''Mariehamn'') (py ''AX'') = Inr \<lparr>city = py ''Mariehamn'', alpha2code = py ''AX''\<rparr>
   \<and> mk_LocationDTO (py ''Mariehamn'') (py ''ALA'') = Inl ValidationError
   \<and> mk_LocationDTO (py ''Mariehamn'') (py ''A'') = Inl ValidationError"
  using alpha2code_length [of "py ''AX''" "py ''Mariehamn''"]
    alpha2code_length [of "py ''ALA''" "py ''Mariehamn''"]
    alpha2code_length [of "py ''A''" "py ''Mariehamn''"]
  by (simp add: py_def)

text \<open>The claim as stated fails: a country with a three-character code is constructed.\<close>

theorem country_alpha2code_counterexample:
  "length (py ''EST'') = 3
   \<and> mk_CountryShortDTO (py ''Estonia'') (py ''EST'')
       = Inr \<lparr>country_name = py ''Estonia'', country_alpha2code = py ''EST''\<rparr>"
  by (simp add: mk_CountryShortDTO_def py_def)

section \<open>The news service\<close>

subsection \<open>\<open>get_news\<close>\<close>

text \<open>No call writes to the news table: the table and the log of inserts are unchanged.\<close>

lemma get_news_frame:
  "news_table (snd (get_news P CS country_code w)) = news_table w
   \<and> inserts (snd (get_news P CS country_code w)) = inserts w"
  by (simp add: get_news_def NewsClient_get_news_def Let_def)

text \<open>With local rows the call is one request to the provider, whose answer is returned.\<close>

lemma get_news_populated:
  "News_filter w country_code \<noteq> [] \<Longrightarrow>
   get_news P CS country_code w =
     (P (length (provider_log w)) country_code, w\<lparr>provider_log := provider_log w @ [country_code]\<rparr>)"
  by (simp add: get_news_def NewsClient_get_news_def)

text \<open>
  C1. The claim is that with matching local rows \<open>get_news\<close> returns exactly those rows and
  does not ask the provider. The code does otherwise: in a store holding one row for
  Estonia, \<open>get_news("EE")\<close> finds the row, sends one request to the provider and returns
  the provider's answer.
\<close>

theorem get_news_ignores_local_rows:
  "News_filter populated (py ''EE'') = [row_a]
   \<and> get_news changing CS_static (py ''EE'') populated
       = (Some [item_a], populated\<lparr>provider_log := [py ''EE'']\<rparr>)"
  by (simp add: get_news_def News_filter_def populated_def Country_get_def estonia_def row_a_def
        NewsClient_get_news_def changing_def py_def)

text \<open>
  C2. The claim is that two immediately successive calls with the same code and a
  populated local store give identical results. The code does otherwise: each call
  returns what the provider answers to that call, so a provider whose second answer
  differs makes the two results differ, although the store is the same.
\<close>

theorem get_news_twice_differs:
  "News_filter populated (py ''EE'') \<noteq> []
   \<and> fst (get_news changing CS_static (py ''EE'') populated) = Some [item_a]
   \<and> fst (get_news changing CS_static (py ''EE'')
            (snd (get_news changing CS_static (py ''EE'') populated))) = Some [item_b]
   \<and> item_a \<noteq> item_b"
  by (simp add: get_news_def News_filter_def populated_def Country_get_def estonia_def row_a_def
        NewsClient_get_news_def changing_def item_a_def item_b_def py_def)

text \<open>
  C3, as amended. The value returned by \<open>get_news\<close> is absent or a list, and the list may
  be empty: it is an empty list only if the provider answered a request of that call
  with an empty list, so it is absent or a non-empty list whenever the provider never
  answers with an empty list; and in the branch where no local rows exist and nothing is
  fetched because the provider answers with an empty list, the returned value is an
  empty list, not absent.
\<close>

theorem get_news_result:
  "(fst (get_news P CS country_code w) = Some [] \<longrightarrow>
      (\<exists>n. length (provider_log w) \<le> n
           \<and> n < length (provider_log (snd (get_news P CS country_code w)))
           \<and> P n country_code = Some []))
   \<and> ((\<forall>n. P n country_code \<noteq> Some []) \<longrightarrow> fst (get_news P CS country_code w) \<noteq> Some [])
   \<and> (News_filter w country_code = [] \<and> (\<forall>n. P n country_code = Some [])
        \<longrightarrow> fst (get_news P CS country_code w) = Some [])"
proof (intro conjI impI)
  assume empty: "fst (get_news P CS country_code w) = Some []"
  let ?n = "length (provider_log w)"
  have "fst (get_news P CS country_code w) = None
      \<or> (fst (get_news P CS country_code w) = P ?n country_code
          \<and> length (provider_log (snd (get_news P CS country_code w))) = Suc ?n)
      \<or> (fst (get_news P CS country_code w) = P (Suc ?n) country_code
          \<and> length (provider_log (snd (get_news P CS country_code w))) = Suc (Suc ?n))"
    by (auto simp add: get_news_def NewsClient_get_news_def Let_def)
  with empty consider
      "P ?n country_code = Some []"
        "length (provider_log (snd (get_news P CS country_code w))) = Suc ?n"
    | "P (Suc ?n) country_code = Some []"
        "length (provider_log (snd (get_news P CS country_code w))) = Suc (Suc ?n)"
    by auto
  then show "\<exists>n. length (provider_log w) \<le> n
           \<and> n < length (provider_log (snd (get_news P CS country_code w)))
           \<and> P n country_code = Some []"
  proof cases
    case 1
    then show ?thesis by (intro exI [of _ ?n]) simp
  next
    case 2
    then show ?thesis by (intro exI [of _ "Suc ?n"]) simp
  qed
next
  assume "\<forall>n. P n country_code \<noteq> Some []"
  then show "fst (get_news P CS country_code w) \<noteq> Some []"
    by (auto simp add: get_news_def NewsClient_get_news_def Let_def)
next
  assume "News_filter w country_code = [] \<and> (\<forall>n. P n country_code = Some [])"
  then show "fst (get_news P CS country_code w) = Some []"
    by (simp add: get_news_def NewsClient_get_news_def)
qed

theorem get_news_result_witness:
  "News_filter fresh (py ''ZZ'') = []
   \<and> fst (get_news (\<lambda>n country_code. Some []) CS_static (py ''ZZ'') fresh) = Some []
   \<and> fst (get_news changing CS_fetching (py ''EE'') fresh) \<noteq> Some []"
  using get_news_result [of "\<lambda>n country_code. Some []" CS_static "py ''ZZ''" fresh]
    get_news_result [of changing CS_fetching "py ''EE''" fresh]
  by (simp add: News_filter_def fresh_def changing_def)

text \<open>
  The claim as stated fails: with no local rows and a provider that answers with an
  empty list, nothing is fetched and the empty list is returned.
\<close>

theorem get_news_empty_list_counterexample:
  "get_news (\<lambda>n country_code. Some []) CS_static (py ''ZZ'') fresh
     = (Some [], fresh\<lparr>provider_log := [py ''ZZ'', py ''ZZ'']\<rparr>)"
  by (simp add: get_news_def News_filter_def fresh_def NewsClient_get_news_def)

text \<open>
  C10. When no local row matches, the first request returns data and the country code
  resolves (it is among the known codes, or it has an id after the country service
  fetched it), the provider is asked a second time and the answer to the second request
  is returned; the answer to the first request has no part in the returned value.
\<close>

theorem get_news_second_fetch:
  assumes "News_filter w country_code = []"
    and "P (length (provider_log w)) country_code = Some news_data" and "news_data \<noteq> []"
    and "\<not> not_in_codes (get_countries_codes CS (countries w)) country_code
         \<or> \<not> get_is_None (get_countries_codes CS (get_countries CS country_code (countries w))) country_code"
  shows "fst (get_news P CS country_code w) = P (Suc (length (provider_log w))) country_code
       \<and> provider_log (snd (get_news P CS country_code w)) = provider_log w @ [country_code, country_code]
       \<and> (\<forall>P'. P' (length (provider_log w)) country_code \<noteq> None
               \<and> P' (length (provider_log w)) country_code \<noteq> Some []
               \<and> P' (Suc (length (provider_log w))) country_code = P (Suc (length (provider_log w))) country_code
            \<longrightarrow> fst (get_news P' CS country_code w) = fst (get_news P CS country_code w))"
  using assms by (auto simp add: get_news_def NewsClient_get_news_def Let_def)

theorem get_news_second_fetch_witness:
  "fst (get_news changing CS_fetching (py ''EE'') fresh) = Some [item_b]
   \<and> provider_log (snd (get_news changing CS_fetching (py ''EE'') fresh)) = [py ''EE'', py ''EE'']"
  using get_news_second_fetch [of fresh "py ''EE''" changing "[item_a]" CS_fetching]
  by (simp add: News_filter_def fresh_def changing_def CS_fetching_def not_in_codes_def get_is_None_def)

subsection \<open>\<open>build_model\<close>\<close>

lemma Country_get_Inr: "Country_get tbl k = Inr c \<Longrightarrow> pk c = k \<and> c \<in> set tbl"
  unfolding Country_get_def by (induction tbl) (auto split: if_splits)

lemma Country_get_Inl: "Country_get tbl k = Inl e \<longleftrightarrow> e = DoesNotExist \<and> (\<forall>c\<in>set tbl. pk c \<noteq> k)"
  unfolding Country_get_def by (induction tbl) auto

text \<open>
  C8. \<open>build_model\<close> fails with the not-found error (\<open>DoesNotExist\<close>) when no persisted
  country has the primary key \<open>country_id\<close>; when one has, it returns a \<open>News\<close> holding
  that country, whose \<open>author\<close>, \<open>description\<close> and \<open>url\<close> are the empty string when the
  item's field is empty or absent and the item's field otherwise, and whose \<open>source\<close>,
  \<open>title\<close> and \<open>published_at\<close> are the item's.
\<close>

theorem build_model_spec:
  "((\<forall>c\<in>set (countries w). pk c \<noteq> k) \<longrightarrow> build_model w news_item k = Inl DoesNotExist)
   \<and> ((\<exists>c\<in>set (countries w). pk c = k) \<longrightarrow>
        (\<exists>c\<in>set (countries w). pk c = k \<and>
          build_model w news_item k =
            Inr \<lparr>country_id = Instance c,
                 source = item_source news_item,
                 author = (if item_author news_item = None \<or> item_author news_item = Some []
                           then [] else the (item_author news_item)),
                 title = item_title news_item,
                 news_description =
                   (if item_description news_item = None \<or> item_description news_item = Some []
                    then [] else the (item_description news_item)),
                 url = (if item_url news_item = None \<or> item_url news_item = Some []
                        then [] else the (item_url news_item)),
                 published_at = item_published_at news_item\<rparr>))"
proof (intro conjI impI)
  assume "\<forall>c\<in>set (countries w). pk c \<noteq> k"
  then have "Country_get (countries w) k = Inl DoesNotExist"
    by (simp add: Country_get_Inl)
  then show "build_model w news_item k = Inl DoesNotExist"
    by (simp add: build_model_def)
next
  assume "\<exists>c\<in>set (countries w). pk c = k"
  then obtain c where c: "Country_get (countries w) k = Inr c"
    by (cases "Country_get (countries w) k") (auto simp: Country_get_Inl)
  then have found: "pk c = k" "c \<in> set (countries w)"
    by (simp_all add: Country_get_Inr)
  have "build_model w news_item k =
            Inr \<lparr>country_id = Instance c,
                 source = item_source news_item,
                 author = (if item_author news_item = None \<or> item_author news_item = Some []
                           then [] else the (item_author news_item)),
                 title = item_title news_item,
                 news_description =
                   (if item_description news_item = None \<or> item_description news_item = Some []
                    then [] else the (item_description news_item)),
                 url = (if item_url news_item = None \<or> item_url news_item = Some []
                        then [] else the (item_url news_item)),
                 published_at = item_published_at news_item\<rparr>"
    using c by (auto simp add: build_model_def split: option.splits)
  with found show "\<exists>c\<in>set (countries w). pk c = k \<and>
          build_model w news_item k =
            Inr \<lparr>country_id = Instance c,
                 source = item_source news_item,
                 author = (if item_author news_item = None \<or> item_author news_item = Some []
                           then [] else the (item_author news_item)),
                 title = item_title news_item,
                 news_description =
                   (if item_description news_item = None \<or> item_description news_item = Some []
                    then [] else the (item_description news_item)),
                 url = (if item_url news_item = None \<or> item_url news_item = Some []
                        then [] else the (item_url news_item)),
                 published_at = item_published_at news_item\<rparr>"
    by blast
qed

theorem build_model_spec_witness:
  "build_model populated item_a 1 = Inr model_a \<and> build_model populated item_a 2 = Inl DoesNotExist"
  using build_model_spec [of populated 1 item_a] build_model_spec [of populated 2 item_a]
  by (simp add: populated_def estonia_def item_a_def model_a_def)

subsection \<open>\<open>save_news\<close>\<close>

declare batches.simps [simp del]

lemma batches_stop [simp]: "batches n [] = []" "batches 0 xs = []"
  by (simp_all add: batches.simps)

lemma batches_step: "0 < n \<Longrightarrow> xs \<noteq> [] \<Longrightarrow> batches n xs = take n xs # batches n (drop n xs)"
  by (subst batches.simps) simp

lemma batches_single: "xs \<noteq> [] \<Longrightarrow> length xs \<le> n \<Longrightarrow> batches n xs = [xs]"
  by (cases "n = 0") (auto simp: batches_step)

lemma concat_batches: "0 < n \<Longrightarrow> concat (batches n xs) = xs"
proof (induction n xs rule: batches.induct)
  case (1 n xs)
  then show ?case
    by (cases "xs = []") (simp_all add: batches_step)
qed

lemma batches_sizes: "b \<in> set (batches n xs) \<Longrightarrow> b \<noteq> [] \<and> length b \<le> n"
proof (induction n xs rule: batches.induct)
  case (1 n xs)
  show ?case
  proof (cases "n = 0 \<or> xs = []")
    case True
    with "1.prems" show ?thesis by auto
  next
    case False
    with "1.prems" have "b = take n xs \<or> b \<in> set (batches n (drop n xs))"
      by (simp add: batches_step)
    with "1.IH" [OF False] False show ?thesis
      by auto
  qed
qed

text \<open>Every group but the last is full.\<close>

lemma batches_full: "Suc i < length (batches n xs) \<Longrightarrow> length (batches n xs ! i) = n"
proof (induction n xs arbitrary: i rule: batches.induct)
  case (1 n xs)
  show ?case
  proof (cases "n = 0 \<or> xs = []")
    case True
    with "1.prems" show ?thesis by auto
  next
    case False
    then have unfold: "batches n xs = take n xs # batches n (drop n xs)"
      by (simp add: batches_step)
    show ?thesis
    proof (cases i)
      case 0
      with "1.prems" unfold have "batches n (drop n xs) \<noteq> []"
        by auto
      then have "drop n xs \<noteq> []"
        by auto
      then have "n \<le> length xs"
        by auto
      with 0 unfold show ?thesis
        by simp
    next
      case (Suc j)
      with "1.prems" unfold have "Suc j < length (batches n (drop n xs))"
        by simp
      with "1.IH" [OF False] have "length (batches n (drop n xs) ! j) = n" .
      with Suc unfold show ?thesis
        by simp
    qed
  qed
qed

lemma build_model_Inr:
  "Country_get (countries w) k = Inr c \<Longrightarrow> \<exists>obj. build_model w i k = Inr obj \<and> country_id obj = Instance c"
  by (simp add: build_model_def)

lemma build_models_Inr:
  "Country_get (countries w) k = Inr c \<Longrightarrow>
   \<exists>objs. build_models w news k = Inr objs \<and> length objs = length news
          \<and> (\<forall>obj\<in>set objs. country_id obj = Instance c)"
proof (induction news)
  case Nil
  then show ?case by simp
next
  case (Cons i news)
  then obtain objs where "build_models w news k = Inr objs" "length objs = length news"
     "\<forall>obj\<in>set objs. country_id obj = Instance c"
    by auto
  moreover obtain obj where "build_model w i k = Inr obj" "country_id obj = Instance c"
    using build_model_Inr [OF Cons.prems] by blast
  ultimately show ?case by simp
qed

text \<open>A group that holds an object with a \<open>Country\<close> instance as its key cannot be written.\<close>

lemma prepare_rows_Instance:
  "objs \<noteq> [] \<Longrightarrow> \<forall>obj\<in>set objs. country_id obj = Instance c \<Longrightarrow> prepare_rows objs = Inl TypeError"
  by (cases objs) (simp_all add: prepare_row_def get_prep_value_def)

lemma bulk_create_Instance:
  assumes "objs \<noteq> []" and "\<forall>obj\<in>set objs. country_id obj = Instance c" and "0 < batch_size"
  shows "bulk_create objs batch_size w = Inl TypeError"
proof -
  define n where "n = min batch_size (max (bulk_batch_size w (length objs)) 1)"
  have n: "0 < n"
    using assms(3) by (simp add: n_def)
  then have step: "batches n objs = take n objs # batches n (drop n objs)"
    using assms(1) by (simp add: batches_step)
  have "take n objs \<noteq> []"
    using n assms(1) by simp
  moreover have "\<forall>obj\<in>set (take n objs). country_id obj = Instance c"
    using assms(2) by (meson in_set_takeD)
  ultimately have "prepare_rows (take n objs) = Inl TypeError"
    by (rule prepare_rows_Instance)
  with step have "insert_batches (batches n objs) w = Inl TypeError"
    by simp
  then show ?thesis
    using assms(3) by (simp add: bulk_create_def n_def)
qed

text \<open>With an empty list \<open>save_news\<close> does nothing.\<close>

lemma save_news_empty: "save_news k [] w = Inr w"
  by (simp add: save_news_def)

text \<open>When the country is missing the comprehension raises and nothing is written.\<close>

lemma save_news_unknown_country:
  "news \<noteq> [] \<Longrightarrow> \<forall>c\<in>set (countries w). pk c \<noteq> k \<Longrightarrow> save_news k news w = Inl DoesNotExist"
proof -
  assume "news \<noteq> []" and "\<forall>c\<in>set (countries w). pk c \<noteq> k"
  then have "Country_get (countries w) k = Inl DoesNotExist" and "news \<noteq> []"
    by (simp_all add: Country_get_Inl)
  then show ?thesis
    by (cases news) (simp_all add: save_news_def build_model_def)
qed

text \<open>When the country is persisted the objects are built and the insert raises.\<close>

lemma save_news_known_country:
  assumes "news \<noteq> []" and "\<exists>c\<in>set (countries w). pk c = k"
  shows "save_news k news w = Inl TypeError"
proof -
  obtain c where "Country_get (countries w) k = Inr c"
    using assms(2) by (cases "Country_get (countries w) k") (auto simp: Country_get_Inl)
  from build_models_Inr [OF this] obtain objs where
    objs: "build_models w news k = Inr objs" "length objs = length news"
      "\<forall>obj\<in>set objs. country_id obj = Instance c"
    by blast
  from objs(2) assms(1) have "objs \<noteq> []"
    by auto
  then have "bulk_create objs 1000 w = Inl TypeError"
    using objs(3) bulk_create_Instance [of objs c 1000 w] by simp
  with objs(1) assms(1) show ?thesis
    by (simp add: save_news_def)
qed

text \<open>
  C9. The claim is that for a non-empty list \<open>save_news\<close> inserts one \<open>News\<close> row per
  item, attributed to \<open>country_pk\<close>. The code does otherwise: \<open>build_model\<close> puts the
  \<open>Country\<close> instance, not its key, into \<open>country_id\<close>, so for two items and the persisted
  country 1 the insert raises \<open>TypeError\<close> and no row is written.
\<close>

theorem save_news_raises:
  "Country_get (countries populated) 1 = Inr estonia
   \<and> build_models populated [item_a, item_b] 1
       = Inr [model_a, \<lparr>country_id = Instance estonia, source = py ''Postimees'',
                       author = py ''B. B.'', title = py ''B'', news_description = py ''text'',
                       url = [], published_at = 1661870600\<rparr>]
   \<and> save_news 1 [item_a, item_b] populated = Inl TypeError"
  by (simp add: save_news_def bulk_create_def build_model_def Country_get_def populated_def
        estonia_def item_a_def item_b_def model_a_def batches_single prepare_row_def
        get_prep_value_def)

end
